theory Spec2Isabelle
  imports Complex_Main "HOL-Library.Multiset"
begin

section \<open>Python values shared by the modules\<close>

text \<open>
  The boxing package raises three built-in exception classes, each with a message.
  An exception is a value: the class and the message the \<^verbatim>\<open>raise\<close> statement builds.
  \<open>Exception\<close> stands for any other class, which no handler of the package catches.
  A function that may raise returns \<open>exn + 'a\<close>, with \<open>Inl\<close> for the exception.

  Python's \<^verbatim>\<open>int\<close> is \<open>int\<close>. Python's \<^verbatim>\<open>float\<close> is idealised as \<open>real\<close>: arithmetic is
  exact, and there is neither rounding nor \<^verbatim>\<open>nan\<close> nor \<^verbatim>\<open>inf\<close>. A \<^verbatim>\<open>str\<close> is a
  \<open>string\<close>, whose length counts characters.
\<close>

datatype exn_class = ValueError | RuntimeError | TypeError | Exception

datatype exn = Raise (exn_class: exn_class) (message: string)

type_synonym 'a result = "exn + 'a"

text \<open>The decimal text an f-string writes for an integer.\<close>

definition digit_char :: "nat \<Rightarrow> char" where
  "digit_char n = ''0123456789'' ! n"

fun str_nat :: "nat \<Rightarrow> string" where
  "str_nat n = (if n < 10 then [digit_char n] else str_nat (n div 10) @ [digit_char (n mod 10)])"

declare str_nat.simps [simp del]

definition str_int :: "int \<Rightarrow> string" where
  "str_int i = (if i < 0 then CHR ''-'' # str_nat (nat (- i)) else str_nat (nat i))"

section \<open>boxers\_model.py\<close>

subsection \<open>Weight classes\<close>

text \<open>
  \<^verbatim>\<open>get_weight_class\<close>: an \<^verbatim>\<open>if\<close>/\<^verbatim>\<open>elif\<close> chain from the highest threshold down,
  whose \<^verbatim>\<open>else\<close> branch raises \<^verbatim>\<open>ValueError\<close>.
\<close>

definition get_weight_class :: "int \<Rightarrow> string result" where
  "get_weight_class w =
     (if w \<ge> 203 then Inr ''HEAVYWEIGHT''
      else if w \<ge> 166 then Inr ''MIDDLEWEIGHT''
      else if w \<ge> 133 then Inr ''LIGHTWEIGHT''
      else if w \<ge> 125 then Inr ''FEATHERWEIGHT''
      else Inl (Raise ValueError
             (''Invalid weight: '' @ str_int w @ ''. Weight must be at least 125.'')))"

subsection \<open>The Boxer dataclass\<close>

text \<open>
  The dataclass has seven fields. Its generated constructor stores the six given ones and
  then runs \<^verbatim>\<open>__post_init__\<close>, which assigns \<^verbatim>\<open>weight_class\<close> from
  \<^verbatim>\<open>get_weight_class\<close>; when that raises, no object is built.
\<close>

record Boxer =
  boxer_id :: int
  name :: string
  weight :: int
  height :: int
  reach :: real
  age :: int
  weight_class :: string


subsection \<open>The boxers table\<close>

text \<open>
  The SQLite table \<^verbatim>\<open>boxers\<close> is a list of rows with the columns the queries name. The
  connection is taken to open and the statements to run: what \<^verbatim>\<open>sqlite3\<close> itself may
  raise is passed on unchanged by every function and is not part of the table.
  A function that writes returns its outcome together with the table it leaves; inside
  \<^verbatim>\<open>with get_db_connection()\<close> an exception leaves the table as it was.
\<close>

record boxers_row =
  c_id :: int
  c_name :: string
  c_weight :: int
  c_height :: int
  c_reach :: real
  c_age :: int
  fights :: int
  wins :: int

type_synonym boxers_table = "boxers_row list"

text \<open>
  \<^verbatim>\<open>update_boxer_stats\<close>: the result string is checked first, then the id is looked up,
  then one \<^verbatim>\<open>UPDATE ... WHERE id = ?\<close> runs on every row with that id.
\<close>

definition update_boxer_stats ::
    "int \<Rightarrow> string \<Rightarrow> boxers_table \<Rightarrow> unit result \<times> boxers_table" where
  "update_boxer_stats bid res t =
     (if res \<notin> {''win'', ''loss''} then
        (Inl (Raise ValueError (''Invalid result: '' @ res @ ''. Expected 'win' or 'loss'.'')), t)
      else if filter (\<lambda>r. c_id r = bid) t = [] then
        (Inl (Raise ValueError (''Boxer with ID '' @ str_int bid @ '' not found.'')), t)
      else if res = ''win'' then
        (Inr (), map (\<lambda>r. if c_id r = bid then r\<lparr>fights := fights r + 1, wins := wins r + 1\<rparr>
                            else r) t)
      else
        (Inr (), map (\<lambda>r. if c_id r = bid then r\<lparr>fights := fights r + 1\<rparr> else r) t))"

subsection \<open>The leaderboard\<close>










section \<open>api\_utils.py\<close>

text \<open>
  What \<^verbatim>\<open>requests.get\<close> followed by \<^verbatim>\<open>raise_for_status\<close> can do: raise
  \<^verbatim>\<open>requests.exceptions.Timeout\<close>, raise another \<^verbatim>\<open>RequestException\<close> (with the text
  \<^verbatim>\<open>str(e)\<close> gives), raise something that is not a \<^verbatim>\<open>RequestException\<close>, or return a
  response. A response carries the message of the \<^verbatim>\<open>HTTPError\<close> that
  \<^verbatim>\<open>raise_for_status\<close> raises for it, if any, and its body text.
\<close>

datatype request_outcome =
    Timeout
  | RequestException string
  | OtherFailure exn
  | Response "string option" string

text \<open>\<^verbatim>\<open>str.strip()\<close> removes leading and trailing whitespace characters.\<close>

definition isspace :: "char \<Rightarrow> bool" where
  "isspace c = (let n = (of_char c :: nat)
                in (9 \<le> n \<and> n \<le> 13) \<or> (28 \<le> n \<and> n \<le> 32) \<or> n = 133 \<or> n = 160)"

definition strip :: "string \<Rightarrow> string" where
  "strip s = rev (dropWhile isspace (rev (dropWhile isspace s)))"

text \<open>
  \<^verbatim>\<open>get_random\<close>. The built-in \<^verbatim>\<open>float\<close> is the parameter \<open>float_py\<close>: \<open>None\<close> where
  it raises \<^verbatim>\<open>ValueError\<close>. The \<^verbatim>\<open>ValueError\<close> raised in the inner handler is not a
  \<^verbatim>\<open>RequestException\<close> and so passes the outer handlers.
\<close>

definition get_random :: "(string \<Rightarrow> real option) \<Rightarrow> request_outcome \<Rightarrow> real result" where
  "get_random float_py out =
     (case out of
        Timeout \<Rightarrow> Inl (Raise RuntimeError ''Request to random.org timed out.'')
      | RequestException e \<Rightarrow> Inl (Raise RuntimeError (''Request to random.org failed: '' @ e))
      | OtherFailure x \<Rightarrow> Inl x
      | Response (Some e) body \<Rightarrow>
          Inl (Raise RuntimeError (''Request to random.org failed: '' @ e))
      | Response None body \<Rightarrow>
          (let random_number_str = strip body
           in case float_py random_number_str of
                Some random_number \<Rightarrow> Inr random_number
              | None \<Rightarrow> Inl (Raise ValueError
                           (''Invalid response from random.org: '' @ random_number_str))))"

section \<open>ring\_model.py\<close>

text \<open>
  The state a fight touches: the list \<^verbatim>\<open>self.ring\<close> and the boxers table.
\<close>

record world =
  ring :: "Boxer list"
  boxers :: boxers_table

text \<open>
  An argument of \<^verbatim>\<open>enter_ring\<close> is any Python object: a Boxer, or something else, of
  which only the type name is used.
\<close>

datatype pyobj = BoxerObj Boxer | OtherObj string

definition get_boxers :: "world \<Rightarrow> Boxer list" where
  "get_boxers s = ring s"

definition clear_ring :: "world \<Rightarrow> world" where
  "clear_ring s = (if ring s \<noteq> [] then s\<lparr>ring := []\<rparr> else s)"

definition enter_ring :: "pyobj \<Rightarrow> world \<Rightarrow> unit result \<times> world" where
  "enter_ring obj s =
     (case obj of
        OtherObj tn \<Rightarrow>
          (Inl (Raise TypeError (''Invalid type: Expected 'Boxer', got '' @ [CHR 0x27] @ tn @ [CHR 0x27])), s)
      | BoxerObj boxer \<Rightarrow>
          if length (ring s) \<ge> 2 then
            (Inl (Raise ValueError ''Ring is full, cannot add more boxers.''), s)
          else (Inr (), s\<lparr>ring := ring s @ [boxer]\<rparr>))"

definition get_fighting_skill :: "Boxer \<Rightarrow> real" where
  "get_fighting_skill boxer =
     (let age_modifier = (if age boxer < 25 then - 1 else (if age boxer > 35 then - 2 else 0)) :: int;
          skill = of_int (weight boxer * int (length (name boxer))) + reach boxer / 10
                    + of_int age_modifier
      in skill)"

text \<open>
  \<^verbatim>\<open>fight\<close>. Its first argument is what the one call of \<^verbatim>\<open>get_random()\<close> yields when it
  is reached. Unpacking \<^verbatim>\<open>boxer_1, boxer_2 = self.get_boxers()\<close> raises on a list of
  more than two. The ring is cleared by the last statement before \<^verbatim>\<open>return\<close> only.
\<close>

definition fight :: "real result \<Rightarrow> world \<Rightarrow> string result \<times> world" where
  "fight rnd s =
     (if length (ring s) < 2 then
        (Inl (Raise ValueError ''There must be two boxers to start a fight.''), s)
      else
        (case get_boxers s of
           [boxer_1, boxer_2] \<Rightarrow>
             (let skill_1 = get_fighting_skill boxer_1;
                  skill_2 = get_fighting_skill boxer_2;
                  delta = \<bar>skill_1 - skill_2\<bar>;
                  normalized_delta = 1 / (1 + exp 1 powr (- delta))
              in case rnd of
                   Inl e \<Rightarrow> (Inl e, s)
                 | Inr random_number \<Rightarrow>
                     (let winner = (if random_number < normalized_delta then boxer_1 else boxer_2);
                          loser = (if random_number < normalized_delta then boxer_2 else boxer_1)
                      in case update_boxer_stats (boxer_id winner) ''win'' (boxers s) of
                           (Inl e, t1) \<Rightarrow> (Inl e, s\<lparr>boxers := t1\<rparr>)
                         | (Inr u1, t1) \<Rightarrow>
                             (case update_boxer_stats (boxer_id loser) ''loss'' t1 of
                                (Inl e, t2) \<Rightarrow> (Inl e, s\<lparr>boxers := t2\<rparr>)
                              | (Inr u2, t2) \<Rightarrow>
                                  (Inr (name winner), clear_ring (s\<lparr>boxers := t2\<rparr>)))))
         | _ \<Rightarrow> (Inl (Raise ValueError ''too many values to unpack (expected 2)''), s)))"

subsection \<open>Sequences of calls on one RingModel\<close>

text \<open>
  A caller holds one \<^verbatim>\<open>RingModel\<close>, which \<^verbatim>\<open>__init__\<close> creates with an empty ring, and
  calls its methods one after the other. \<open>ring_call\<close> names a call with its argument
  (for \<^verbatim>\<open>fight\<close>, what the random source yields); \<open>after_call\<close> is the state the call
  leaves, whether it returned or raised.
\<close>

datatype ring_call = Enter pyobj | Fight "real result" | Clear

fun after_call :: "world \<Rightarrow> ring_call \<Rightarrow> world" where
  "after_call s (Enter obj) = snd (enter_ring obj s)"
| "after_call s (Fight rnd) = snd (fight rnd s)"
| "after_call s Clear = clear_ring s"

definition after_calls :: "world \<Rightarrow> ring_call list \<Rightarrow> world" where
  "after_calls s cs = foldl after_call s cs"

definition RingModel_init :: "boxers_table \<Rightarrow> world" where
  "RingModel_init t = \<lparr>ring = [], boxers = t\<rparr>"

subsection \<open>The values a Python float takes\<close>


section \<open>Values of the test suite\<close>

text \<open>
  The two Boxer fixtures of \<^verbatim>\<open>test_ring_model.py\<close>, with the weight class their
  constructor assigns, and the two rows \<^verbatim>\<open>test_boxers_model.py\<close> feeds the leaderboard.
\<close>

definition boxer1 :: Boxer where
  "boxer1 = \<lparr>boxer_id = 1, name = ''Rocky'', weight = 190, height = 70, reach = 72, age = 28,
             weight_class = ''MIDDLEWEIGHT''\<rparr>"

definition boxer2 :: Boxer where
  "boxer2 = \<lparr>boxer_id = 2, name = ''Creed'', weight = 185, height = 71, reach = 73, age = 30,
             weight_class = ''MIDDLEWEIGHT''\<rparr>"

definition row_Ali :: boxers_row where
  "row_Ali = \<lparr>c_id = 1, c_name = ''Ali'', c_weight = 200, c_height = 70, c_reach = 74,
              c_age = 28, fights = 10, wins = 8\<rparr>"

definition row_Tyson :: boxers_row where
  "row_Tyson = \<lparr>c_id = 2, c_name = ''Tyson'', c_weight = 220, c_height = 71, c_reach = 71,
                c_age = 25, fights = 15, wins = 10\<rparr>"

section \<open>Weight classes: the thresholds\<close>

text \<open>
  C6. For every integer weight \<open>w\<close>, \<open>get_weight_class\<close> returns HEAVYWEIGHT exactly when
  \<open>w \<ge> 203\<close>, MIDDLEWEIGHT exactly when \<open>166 \<le> w < 203\<close>, LIGHTWEIGHT exactly when
  \<open>133 \<le> w < 166\<close>, FEATHERWEIGHT exactly when \<open>125 \<le> w < 133\<close>, and raises exactly when
  \<open>w < 125\<close>; what it raises then is the ValueError that names the invalid weight.
\<close>

theorem get_weight_class_thresholds:
  "(get_weight_class w = Inr ''HEAVYWEIGHT'' \<longleftrightarrow> w \<ge> 203) \<and>
   (get_weight_class w = Inr ''MIDDLEWEIGHT'' \<longleftrightarrow> 166 \<le> w \<and> w < 203) \<and>
   (get_weight_class w = Inr ''LIGHTWEIGHT'' \<longleftrightarrow> 133 \<le> w \<and> w < 166) \<and>
   (get_weight_class w = Inr ''FEATHERWEIGHT'' \<longleftrightarrow> 125 \<le> w \<and> w < 133) \<and>
   ((\<exists>e. get_weight_class w = Inl e) \<longleftrightarrow> w < 125) \<and>
   (w < 125 \<longrightarrow> get_weight_class w = Inl (Raise ValueError
       (''Invalid weight: '' @ str_int w @ ''. Weight must be at least 125.'')))"
  by (simp add: get_weight_class_def)

theorem get_weight_class_thresholds_witness:
  "get_weight_class 203 = Inr ''HEAVYWEIGHT'' \<and> get_weight_class 202 = Inr ''MIDDLEWEIGHT'' \<and>
   get_weight_class 165 = Inr ''LIGHTWEIGHT'' \<and> get_weight_class 125 = Inr ''FEATHERWEIGHT'' \<and>
   (124::int) < 125 \<and>
   get_weight_class 124 = Inl (Raise ValueError ''Invalid weight: 124. Weight must be at least 125.'')"
  using get_weight_class_thresholds [of 203] get_weight_class_thresholds [of 202]
    get_weight_class_thresholds [of 165] get_weight_class_thresholds [of 125]
    get_weight_class_thresholds [of 124]
  by (simp add: str_int_def str_nat.simps digit_char_def)

section \<open>Stat updates\<close>

lemma update_win_present:
  assumes "bid \<in> c_id ` set t"
  shows "update_boxer_stats bid ''win'' t =
    (Inr (), map (\<lambda>r. if c_id r = bid then r\<lparr>fights := fights r + 1, wins := wins r + 1\<rparr> else r) t)"
proof -
  from assms have "filter (\<lambda>r. c_id r = bid) t \<noteq> []"
    by (auto simp: filter_empty_conv)
  then show ?thesis by (simp add: update_boxer_stats_def)
qed

lemma update_loss_present:
  assumes "bid \<in> c_id ` set t"
  shows "update_boxer_stats bid ''loss'' t =
    (Inr (), map (\<lambda>r. if c_id r = bid then r\<lparr>fights := fights r + 1\<rparr> else r) t)"
proof -
  from assms have "filter (\<lambda>r. c_id r = bid) t \<noteq> []"
    by (auto simp: filter_empty_conv)
  then show ?thesis by (simp add: update_boxer_stats_def)
qed





section \<open>The ring\<close>

lemma fight_too_few:
  "length (ring s) < 2 \<Longrightarrow>
   fight rnd s = (Inl (Raise ValueError ''There must be two boxers to start a fight.''), s)"
  by (simp add: fight_def)

lemma fight_too_many:
  "length (ring s) > 2 \<Longrightarrow>
   fight rnd s = (Inl (Raise ValueError ''too many values to unpack (expected 2)''), s)"
proof -
  assume "length (ring s) > 2"
  then have "Suc (Suc (Suc 0)) \<le> length (ring s)" by simp
  then obtain b1 b2 b3 bs where "ring s = b1 # b2 # b3 # bs"
    by (auto simp: Suc_le_length_iff)
  then show ?thesis by (simp add: fight_def get_boxers_def)
qed

lemma fight_random_raised:
  "length (ring s) = 2 \<Longrightarrow> fight (Inl e) s = (Inl e, s)"
  by (auto simp add: fight_def get_boxers_def Let_def split: list.splits)


lemma fight_ring_after:
  assumes "length (ring s) = 2"
  shows "case fight rnd s of (Inr n, s') \<Rightarrow> ring s' = [] | (Inl e, s') \<Rightarrow> ring s' = ring s"
proof -
  from assms obtain b1 b2 where r: "ring s = [b1, b2]"
    by (metis (no_types, lifting) length_0_conv length_Suc_conv numeral_2_eq_2)
  show ?thesis
    by (cases rnd) (auto simp add: fight_def get_boxers_def r Let_def clear_ring_def split: sum.splits prod.splits)
qed

lemma fight_ring_length:
  "length (ring s) \<le> 2 \<Longrightarrow> length (ring (snd (fight rnd s))) \<le> 2"
proof (cases "length (ring s) = 2")
  case True
  from fight_ring_after [OF True, of rnd] True show ?thesis
    by (auto split: prod.splits sum.splits)
next
  case False
  assume "length (ring s) \<le> 2"
  with False have "length (ring s) < 2" by simp
  then show ?thesis by (simp add: fight_too_few)
qed

lemma enter_ring_length:
  "length (ring s) \<le> 2 \<Longrightarrow> length (ring (snd (enter_ring obj s))) \<le> 2"
  by (cases obj) (auto simp: enter_ring_def)

lemma clear_ring_length:
  "length (ring s) \<le> 2 \<Longrightarrow> length (ring (clear_ring s)) \<le> 2"
  by (simp add: clear_ring_def)

lemma after_call_length:
  "length (ring s) \<le> 2 \<Longrightarrow> length (ring (after_call s c)) \<le> 2"
  by (cases c) (simp_all add: enter_ring_length fight_ring_length clear_ring_length)

lemma after_calls_length:
  "length (ring s) \<le> 2 \<Longrightarrow> length (ring (after_calls s cs)) \<le> 2"
  unfolding after_calls_def
  by (induction cs arbitrary: s) (simp_all add: after_call_length)

lemma enter_ring_full:
  "length (ring s) \<ge> 2 \<Longrightarrow>
   enter_ring (BoxerObj c) s = (Inl (Raise ValueError ''Ring is full, cannot add more boxers.''), s)"
  by (simp add: enter_ring_def)

lemma enter_ring_ok:
  "enter_ring (BoxerObj a) s = (Inr (), s') \<Longrightarrow> ring s' = ring s @ [a] \<and> boxers s' = boxers s"
  by (auto simp: enter_ring_def split: if_splits)

text \<open>
  C8. The ring never holds more than two occupants: whatever calls are made on a
  \<^verbatim>\<open>RingModel\<close> since its creation, the ring has at most two entries. After two calls of
  \<^verbatim>\<open>enter_ring\<close> that returned, a further call with a Boxer raises the ValueError for a
  full ring (the spec's CapacityError) and leaves the state as it was. \<^verbatim>\<open>fight\<close> on fewer
  than two occupants raises the ValueError that asks for two boxers (the spec's
  PreconditionError) and leaves the state as it was.
\<close>

theorem ring_capacity:
  "length (ring (after_calls (RingModel_init t) cs)) \<le> 2 \<and>
   (enter_ring (BoxerObj a) s0 = (Inr (), s1) \<and> enter_ring (BoxerObj b) s1 = (Inr (), s2) \<longrightarrow>
      enter_ring (BoxerObj c) s2 =
        (Inl (Raise ValueError ''Ring is full, cannot add more boxers.''), s2)) \<and>
   (length (ring s) < 2 \<longrightarrow>
      fight rnd s = (Inl (Raise ValueError ''There must be two boxers to start a fight.''), s))"
proof (intro conjI impI)
  show "length (ring (after_calls (RingModel_init t) cs)) \<le> 2"
    by (rule after_calls_length) (simp add: RingModel_init_def)
next
  assume "enter_ring (BoxerObj a) s0 = (Inr (), s1) \<and> enter_ring (BoxerObj b) s1 = (Inr (), s2)"
  then have "ring s2 = ring s0 @ [a, b]"
    by (auto dest!: enter_ring_ok)
  then have "length (ring s2) \<ge> 2" by simp
  then show "enter_ring (BoxerObj c) s2 =
        (Inl (Raise ValueError ''Ring is full, cannot add more boxers.''), s2)"
    by (rule enter_ring_full)
next
  assume "length (ring s) < 2"
  then show "fight rnd s = (Inl (Raise ValueError ''There must be two boxers to start a fight.''), s)"
    by (rule fight_too_few)
qed

theorem ring_capacity_witness:
  "length (ring (after_calls (RingModel_init [])
      [Enter (BoxerObj boxer1), Enter (BoxerObj boxer2), Enter (BoxerObj boxer1)])) \<le> 2 \<and>
   enter_ring (BoxerObj boxer1) (RingModel_init []) = (Inr (), \<lparr>ring = [boxer1], boxers = []\<rparr>) \<and>
   enter_ring (BoxerObj boxer2) \<lparr>ring = [boxer1], boxers = []\<rparr> =
     (Inr (), \<lparr>ring = [boxer1, boxer2], boxers = []\<rparr>) \<and>
   enter_ring (BoxerObj boxer1) \<lparr>ring = [boxer1, boxer2], boxers = []\<rparr> =
     (Inl (Raise ValueError ''Ring is full, cannot add more boxers.''),
      \<lparr>ring = [boxer1, boxer2], boxers = []\<rparr>) \<and>
   length (ring \<lparr>ring = [boxer1], boxers = []\<rparr>) < 2 \<and>
   fight (Inr (2 / 5)) \<lparr>ring = [boxer1], boxers = []\<rparr> =
     (Inl (Raise ValueError ''There must be two boxers to start a fight.''),
      \<lparr>ring = [boxer1], boxers = []\<rparr>)"
proof -
  have e1: "enter_ring (BoxerObj boxer1) (RingModel_init []) = (Inr (), \<lparr>ring = [boxer1], boxers = []\<rparr>)"
    by (simp add: enter_ring_def RingModel_init_def)
  have e2: "enter_ring (BoxerObj boxer2) \<lparr>ring = [boxer1], boxers = []\<rparr> =
     (Inr (), \<lparr>ring = [boxer1, boxer2], boxers = []\<rparr>)"
    by (simp add: enter_ring_def)
  have l: "length (ring \<lparr>ring = [boxer1], boxers = []\<rparr>) < 2" by simp
  from ring_capacity [where t = "[]"
      and cs = "[Enter (BoxerObj boxer1), Enter (BoxerObj boxer2), Enter (BoxerObj boxer1)]"
      and a = boxer1 and ?s0.0 = "RingModel_init []" and ?s1.0 = "\<lparr>ring = [boxer1], boxers = []\<rparr>"
      and b = boxer2 and ?s2.0 = "\<lparr>ring = [boxer1, boxer2], boxers = []\<rparr>" and c = boxer1
      and s = "\<lparr>ring = [boxer1], boxers = []\<rparr>" and rnd = "Inr (2 / 5)"]
    e1 e2 l
  show ?thesis by simp
qed


section \<open>Failure of the random source\<close>

lemma fight_random_raised_any:
  "fight (Inl e) s = (Inl e', s') \<Longrightarrow> s' = s"
proof -
  assume a: "fight (Inl e) s = (Inl e', s')"
  consider "length (ring s) < 2" | "length (ring s) = 2" | "length (ring s) > 2"
    by linarith
  then show ?thesis
  proof cases
    case 1 with a show ?thesis by (simp add: fight_too_few)
  next
    case 2 with a show ?thesis by (simp add: fight_random_raised)
  next
    case 3 with a show ?thesis by (simp add: fight_too_many)
  qed
qed

text \<open>
  C2. On a ring of two boxers, when \<^verbatim>\<open>get_random\<close> raises, \<^verbatim>\<open>fight\<close> raises the same
  exception and leaves the ring and the table as they were; a body that \<^verbatim>\<open>float\<close> rejects
  makes \<^verbatim>\<open>get_random\<close> raise ValueError. In any state, a fight that changes the table had
  a random draw that returned a number.
\<close>

theorem fight_random_source_fails:
  "(length (ring s) = 2 \<and> get_random float_py out = Inl e \<longrightarrow>
      fight (get_random float_py out) s = (Inl e, s)) \<and>
   (float_py (strip body) = None \<longrightarrow>
      get_random float_py (Response None body) =
        Inl (Raise ValueError (''Invalid response from random.org: '' @ strip body))) \<and>
   (boxers (snd (fight rnd s)) \<noteq> boxers s \<longrightarrow> (\<exists>r. rnd = Inr r))"
proof (intro conjI impI)
  assume "length (ring s) = 2 \<and> get_random float_py out = Inl e"
  then show "fight (get_random float_py out) s = (Inl e, s)"
    by (simp add: fight_random_raised)
next
  assume "float_py (strip body) = None"
  then show "get_random float_py (Response None body) =
        Inl (Raise ValueError (''Invalid response from random.org: '' @ strip body))"
    by (simp add: get_random_def)
next
  assume ch: "boxers (snd (fight rnd s)) \<noteq> boxers s"
  show "\<exists>r. rnd = Inr r"
  proof (cases rnd)
    case (Inl e)
    obtain res s' where f: "fight (Inl e) s = (res, s')" by (cases "fight (Inl e) s")
    have "s' = s"
    proof (cases res)
      case (Inl e') with f show ?thesis by (auto dest: fight_random_raised_any)
    next
      case (Inr n)
      consider "length (ring s) < 2" | "length (ring s) = 2" | "length (ring s) > 2"
        by linarith
      then show ?thesis
      proof cases
        case 1 with f show ?thesis by (simp add: fight_too_few)
      next
        case 2 with f show ?thesis by (simp add: fight_random_raised)
      next
        case 3 with f show ?thesis by (simp add: fight_too_many)
      qed
    qed
    with f Inl ch show ?thesis by simp
  next
    case (Inr r) then show ?thesis by blast
  qed
qed

theorem fight_random_source_fails_witness:
  "length (ring \<lparr>ring = [boxer1, boxer2], boxers = [row_Ali, row_Tyson]\<rparr>) = 2 \<and>
   [''0.75'' \<mapsto> 3 / 4 :: real] (strip ''abc'') = None \<and>
   get_random [''0.75'' \<mapsto> 3 / 4] (Response None ''abc'') =
     Inl (Raise ValueError ''Invalid response from random.org: abc'') \<and>
   fight (get_random [''0.75'' \<mapsto> 3 / 4] (Response None ''abc''))
       \<lparr>ring = [boxer1, boxer2], boxers = [row_Ali, row_Tyson]\<rparr> =
     (Inl (Raise ValueError ''Invalid response from random.org: abc''),
      \<lparr>ring = [boxer1, boxer2], boxers = [row_Ali, row_Tyson]\<rparr>)"
proof -
  have st: "strip ''abc'' = ''abc''"
    by (simp add: strip_def isspace_def)
  have l: "length (ring \<lparr>ring = [boxer1, boxer2], boxers = [row_Ali, row_Tyson]\<rparr>) = 2" by simp
  have n: "[''0.75'' \<mapsto> 3 / 4 :: real] (strip ''abc'') = None" by (simp add: st)
  from fight_random_source_fails [where float_py = "[''0.75'' \<mapsto> 3 / 4]" and body = "''abc''"
      and out = "Response None ''abc''"
      and s = "\<lparr>ring = [boxer1, boxer2], boxers = [row_Ali, row_Tyson]\<rparr>"
      and e = "Raise ValueError ''Invalid response from random.org: abc''"] l n st
  show ?thesis by simp
qed

section \<open>The ring after a fight\<close>

text \<open>
  C4, as stated, fails: when the random source times out, the two boxers are still in
  the ring after \<^verbatim>\<open>fight\<close> has raised.
\<close>

theorem fight_clears_ring_counterexample:
  "fight (get_random Map.empty Timeout) \<lparr>ring = [boxer1, boxer2], boxers = [row_Ali, row_Tyson]\<rparr> =
     (Inl (Raise RuntimeError ''Request to random.org timed out.''),
      \<lparr>ring = [boxer1, boxer2], boxers = [row_Ali, row_Tyson]\<rparr>) \<and>
   ring (snd (fight (get_random Map.empty Timeout)
       \<lparr>ring = [boxer1, boxer2], boxers = [row_Ali, row_Tyson]\<rparr>)) \<noteq> []"
  by (simp add: get_random_def fight_random_raised)

text \<open>
  C4, amended. On a ring of two boxers, the ring is empty after a \<^verbatim>\<open>fight\<close> that returns
  a winner, and it is unchanged after a \<^verbatim>\<open>fight\<close> that raises.
\<close>

theorem fight_clears_ring_on_success:
  "length (ring s) = 2 \<longrightarrow>
     (case fight rnd s of (Inr n, s') \<Rightarrow> ring s' = [] | (Inl e, s') \<Rightarrow> ring s' = ring s)"
  by (rule impI) (rule fight_ring_after)

section \<open>Errors of the random source\<close>

text \<open>
  C5, as stated, fails: a timeout and a refused connection both raise RuntimeError, so
  the exception class does not tell the two conditions apart.
\<close>

theorem get_random_same_class_counterexample:
  "get_random Map.empty Timeout = Inl (Raise RuntimeError ''Request to random.org timed out.'') \<and>
   get_random Map.empty (RequestException ''Connection refused'') =
     Inl (Raise RuntimeError ''Request to random.org failed: Connection refused'')"
  by (simp add: get_random_def)

text \<open>
  C5, amended. \<^verbatim>\<open>get_random\<close> raises RuntimeError on a timeout, and RuntimeError again on
  any other \<^verbatim>\<open>RequestException\<close> and on a bad HTTP status; the two messages differ
  (``timed out'' against ``failed: ...''). It raises ValueError, a class of its own, when
  \<^verbatim>\<open>float\<close> rejects the stripped body.
\<close>

theorem get_random_errors:
  "get_random float_py Timeout = Inl (Raise RuntimeError ''Request to random.org timed out.'') \<and>
   get_random float_py (RequestException m) =
     Inl (Raise RuntimeError (''Request to random.org failed: '' @ m)) \<and>
   get_random float_py (Response (Some m) body) =
     Inl (Raise RuntimeError (''Request to random.org failed: '' @ m)) \<and>
   (float_py (strip body) = None \<longrightarrow>
      get_random float_py (Response None body) =
        Inl (Raise ValueError (''Invalid response from random.org: '' @ strip body))) \<and>
   ''Request to random.org timed out.'' \<noteq> ''Request to random.org failed: '' @ m \<and>
   ValueError \<noteq> RuntimeError"
  by (simp add: get_random_def)

theorem get_random_errors_witness:
  "get_random [''0.75'' \<mapsto> 3 / 4] Timeout =
     Inl (Raise RuntimeError ''Request to random.org timed out.'') \<and>
   get_random [''0.75'' \<mapsto> 3 / 4] (RequestException ''Connection refused'') =
     Inl (Raise RuntimeError ''Request to random.org failed: Connection refused'') \<and>
   get_random [''0.75'' \<mapsto> 3 / 4] (Response (Some ''500 Server Error'') ''0.75'') =
     Inl (Raise RuntimeError ''Request to random.org failed: 500 Server Error'') \<and>
   [''0.75'' \<mapsto> 3 / 4 :: real] (strip ''not-a-number'') = None \<and>
   get_random [''0.75'' \<mapsto> 3 / 4] (Response None ''not-a-number'') =
     Inl (Raise ValueError ''Invalid response from random.org: not-a-number'')"
proof -
  have st: "strip ''not-a-number'' = ''not-a-number''"
    by (simp add: strip_def isspace_def)
  from get_random_errors [where float_py = "[''0.75'' \<mapsto> 3 / 4]" and m = "''Connection refused''"
      and body = "''not-a-number''"]
    get_random_errors [where float_py = "[''0.75'' \<mapsto> 3 / 4]" and m = "''500 Server Error''"
      and body = "''0.75''"] st
  show ?thesis by simp
qed

section \<open>Resolution of a fight\<close>

lemma exp_1_powr: "exp 1 powr (x::real) = exp x"
  by (simp add: powr_def)

lemma logistic_bounds:
  fixes x :: real
  assumes "0 < x" and "x \<le> 1"
  shows "1 / 2 \<le> 1 / (1 + x)" and "1 / (1 + x) < 1"
proof -
  from assms have "1 + x \<le> 2" and "0 < 1 + x" by simp_all
  then show "1 / 2 \<le> 1 / (1 + x)" by (intro divide_left_mono) simp_all
  from assms show "1 / (1 + x) < 1" by simp
qed

lemma normalized_delta_bounds:
  "1 / 2 \<le> 1 / (1 + exp 1 powr (- \<bar>d::real\<bar>)) \<and> 1 / (1 + exp 1 powr (- \<bar>d\<bar>)) < 1"
  unfolding exp_1_powr
  by (intro conjI logistic_bounds) simp_all

lemma fight_two:
  "ring s = [b1, b2] \<Longrightarrow>
   fight (Inr r) s =
     (let p = 1 / (1 + exp (- \<bar>get_fighting_skill b1 - get_fighting_skill b2\<bar>));
          w = (if r < p then b1 else b2);
          l = (if r < p then b2 else b1)
      in case update_boxer_stats (boxer_id w) ''win'' (boxers s) of
           (Inl e, t1) \<Rightarrow> (Inl e, s\<lparr>boxers := t1\<rparr>)
         | (Inr u1, t1) \<Rightarrow>
             (case update_boxer_stats (boxer_id l) ''loss'' t1 of
                (Inl e, t2) \<Rightarrow> (Inl e, s\<lparr>boxers := t2\<rparr>)
              | (Inr u2, t2) \<Rightarrow> (Inr (name w), \<lparr>ring = [], boxers = t2\<rparr>)))"
  by (simp add: fight_def get_boxers_def exp_1_powr Let_def clear_ring_def
           split: prod.splits sum.splits)

lemma ids_after_win:
  "c_id ` set (map (\<lambda>r. if c_id r = bid then r\<lparr>fights := fights r + 1, wins := wins r + 1\<rparr> else r) t)
     = c_id ` set t"
  by (induction t) auto

lemma win_then_loss:
  "map (\<lambda>r. if c_id r = l then r\<lparr>fights := fights r + 1\<rparr> else r)
     (map (\<lambda>r. if c_id r = w then r\<lparr>fights := fights r + 1, wins := wins r + 1\<rparr> else r) t) =
   map (\<lambda>row. row\<lparr>fights := fights row + (if c_id row = w then 1 else 0)
                                  + (if c_id row = l then 1 else 0),
                   wins := wins row + (if c_id row = w then 1 else 0)\<rparr>) t"
  by (induction t) auto

lemma fight_both_stored:
  assumes r: "ring s = [b1, b2]"
    and p: "p = 1 / (1 + exp (- \<bar>get_fighting_skill b1 - get_fighting_skill b2\<bar>))"
    and w: "w = (if r < p then b1 else b2)" and l: "l = (if r < p then b2 else b1)"
    and iw: "boxer_id w \<in> c_id ` set (boxers s)" and il: "boxer_id l \<in> c_id ` set (boxers s)"
  shows "fight (Inr r) s =
    (Inr (name w),
     \<lparr>ring = [],
      boxers = map (\<lambda>row. row\<lparr>fights := fights row + (if c_id row = boxer_id w then 1 else 0)
                                  + (if c_id row = boxer_id l then 1 else 0),
                   wins := wins row + (if c_id row = boxer_id w then 1 else 0)\<rparr>) (boxers s)\<rparr>)"
proof -
  let ?t1 = "map (\<lambda>r. if c_id r = boxer_id w then r\<lparr>fights := fights r + 1, wins := wins r + 1\<rparr> else r) (boxers s)"
  have u1: "update_boxer_stats (boxer_id w) ''win'' (boxers s) = (Inr (), ?t1)"
    using iw by (rule update_win_present)
  from il have "boxer_id l \<in> c_id ` set ?t1" by (simp only: ids_after_win)
  then have u2: "update_boxer_stats (boxer_id l) ''loss'' ?t1 =
      (Inr (), map (\<lambda>r. if c_id r = boxer_id l then r\<lparr>fights := fights r + 1\<rparr> else r) ?t1)"
    by (rule update_loss_present)
  have "fight (Inr r) s = (Inr (name w), \<lparr>ring = [],
      boxers = map (\<lambda>r. if c_id r = boxer_id l then r\<lparr>fights := fights r + 1\<rparr> else r) ?t1\<rparr>)"
    unfolding fight_two [OF r] using u1 u2 p w l by (simp add: Let_def)
  then show ?thesis by (simp only: win_then_loss)
qed



lemma strip_0_4: "strip ''0.4'' = ''0.4''"
  by (simp add: strip_def isspace_def)

lemma first_wins_below_half:
  "r < 1 / 2 \<Longrightarrow> r < 1 / (1 + exp (- \<bar>d::real\<bar>))"
  using normalized_delta_bounds [of d] by (simp add: exp_1_powr)


section \<open>The same boxer in both slots\<close>

text \<open>
  C10. \<^verbatim>\<open>enter_ring\<close> checks no duplicates: the same Boxer enters both slots. With that
  boxer stored and the random draw returned, the skill difference is \<open>0\<close>, the win
  probability is one half, and \<^verbatim>\<open>fight\<close> returns the boxer's name, leaves the ring empty
  and has added two fights and one win to the rows with the boxer's id.
\<close>

theorem fight_same_boxer:
  assumes "boxer_id b \<in> c_id ` set t" and "get_random float_py out = Inr r"
  shows "enter_ring (BoxerObj b) (RingModel_init t) = (Inr (), \<lparr>ring = [b], boxers = t\<rparr>) \<and>
         enter_ring (BoxerObj b) \<lparr>ring = [b], boxers = t\<rparr> = (Inr (), \<lparr>ring = [b, b], boxers = t\<rparr>) \<and>
         \<bar>get_fighting_skill b - get_fighting_skill b\<bar> = 0 \<and>
         1 / (1 + exp 1 powr (- \<bar>get_fighting_skill b - get_fighting_skill b\<bar>)) = 1 / 2 \<and>
         fight (get_random float_py out) \<lparr>ring = [b, b], boxers = t\<rparr> =
           (Inr (name b),
            \<lparr>ring = [],
             boxers = map (\<lambda>row. if c_id row = boxer_id b
                                 then row\<lparr>fights := fights row + 2, wins := wins row + 1\<rparr>
                                 else row) t\<rparr>)"
proof -
  have e1: "enter_ring (BoxerObj b) (RingModel_init t) = (Inr (), \<lparr>ring = [b], boxers = t\<rparr>)"
    by (simp add: enter_ring_def RingModel_init_def)
  have e2: "enter_ring (BoxerObj b) \<lparr>ring = [b], boxers = t\<rparr> = (Inr (), \<lparr>ring = [b, b], boxers = t\<rparr>)"
    by (simp add: enter_ring_def)
  have p: "1 / (1 + exp 1 powr (- \<bar>get_fighting_skill b - get_fighting_skill b\<bar>)) = 1 / 2"
    by simp
  have m: "map (\<lambda>row. row\<lparr>fights := fights row + (if c_id row = boxer_id b then 1 else 0)
                                  + (if c_id row = boxer_id b then 1 else 0),
                   wins := wins row + (if c_id row = boxer_id b then 1 else 0)\<rparr>) t =
           map (\<lambda>row. if c_id row = boxer_id b
                                 then row\<lparr>fights := fights row + 2, wins := wins row + 1\<rparr>
                                 else row) t"
    by (induction t) auto
  have "fight (Inr r) \<lparr>ring = [b, b], boxers = t\<rparr> =
           (Inr (name b),
            \<lparr>ring = [],
             boxers = map (\<lambda>row. if c_id row = boxer_id b
                                 then row\<lparr>fights := fights row + 2, wins := wins row + 1\<rparr>
                                 else row) t\<rparr>)"
    using fight_both_stored [where s = "\<lparr>ring = [b, b], boxers = t\<rparr>" and ?b1.0 = b and ?b2.0 = b
        and r = r and w = b and l = b, OF _ refl] assms(1)
    by (simp add: m)
  with e1 e2 p assms(2) show ?thesis by simp
qed

theorem fight_same_boxer_witness:
  "boxer_id boxer1 \<in> c_id ` set [row_Ali, row_Tyson] \<and>
   get_random [''0.4'' \<mapsto> 2 / 5] (Response None ''0.4'') = Inr (2 / 5) \<and>
   enter_ring (BoxerObj boxer1) \<lparr>ring = [boxer1], boxers = [row_Ali, row_Tyson]\<rparr> =
     (Inr (), \<lparr>ring = [boxer1, boxer1], boxers = [row_Ali, row_Tyson]\<rparr>) \<and>
   fight (get_random [''0.4'' \<mapsto> 2 / 5] (Response None ''0.4''))
       \<lparr>ring = [boxer1, boxer1], boxers = [row_Ali, row_Tyson]\<rparr> =
     (Inr ''Rocky'', \<lparr>ring = [], boxers = [row_Ali\<lparr>fights := 12, wins := 9\<rparr>, row_Tyson]\<rparr>)"
proof -
  have i: "boxer_id boxer1 \<in> c_id ` set [row_Ali, row_Tyson]"
    by (simp add: boxer1_def row_Ali_def)
  have gr: "get_random [''0.4'' \<mapsto> 2 / 5 :: real] (Response None ''0.4'') = Inr (2 / 5)"
    by (simp add: get_random_def strip_0_4)
  have m: "map (\<lambda>row. if c_id row = boxer_id boxer1
                                 then row\<lparr>fights := fights row + 2, wins := wins row + 1\<rparr>
                                 else row) [row_Ali, row_Tyson] =
           [row_Ali\<lparr>fights := 12, wins := 9\<rparr>, row_Tyson]"
    by (simp add: boxer1_def row_Ali_def row_Tyson_def)
  have n: "name boxer1 = ''Rocky''" by (simp add: boxer1_def)
  from fight_same_boxer [OF i gr] i gr show ?thesis
    by (simp only: m n simp_thms)
qed

section \<open>The ring after a fight of the two fixtures\<close>

text \<open>
  With a draw of \<open>0.4\<close> the first fixture wins and the ring is cleared; with a timeout the
  two fixtures stay in the ring.
\<close>

theorem fight_clears_ring_on_success_witness:
  "length (ring \<lparr>ring = [boxer1, boxer2], boxers = [row_Ali, row_Tyson]\<rparr>) = 2 \<and>
   fight (Inr (2 / 5)) \<lparr>ring = [boxer1, boxer2], boxers = [row_Ali, row_Tyson]\<rparr> =
     (Inr ''Rocky'',
      \<lparr>ring = [], boxers = [row_Ali\<lparr>fights := 11, wins := 9\<rparr>, row_Tyson\<lparr>fights := 16\<rparr>]\<rparr>) \<and>
   ring (snd (fight (Inr (2 / 5)) \<lparr>ring = [boxer1, boxer2], boxers = [row_Ali, row_Tyson]\<rparr>)) = [] \<and>
   ring (snd (fight (Inl (Raise RuntimeError ''Request to random.org timed out.''))
         \<lparr>ring = [boxer1, boxer2], boxers = []\<rparr>)) = [boxer1, boxer2]"
proof -
  let ?s = "\<lparr>ring = [boxer1, boxer2], boxers = [row_Ali, row_Tyson]\<rparr>"
  have l: "length (ring ?s) = 2" by simp
  have lt: "(2 / 5 :: real) < 1 / (1 + exp (- \<bar>get_fighting_skill boxer1 - get_fighting_skill boxer2\<bar>))"
    by (rule first_wins_below_half) simp
  have ids: "boxer_id boxer1 \<in> c_id ` set (boxers ?s)" "boxer_id boxer2 \<in> c_id ` set (boxers ?s)"
    by (simp_all add: boxer1_def boxer2_def row_Ali_def row_Tyson_def)
  have "fight (Inr (2 / 5)) ?s =
      (Inr (name boxer1),
       \<lparr>ring = [],
        boxers = map (\<lambda>row. row\<lparr>fights := fights row
                                     + (if c_id row = boxer_id boxer1 then 1 else 0)
                                     + (if c_id row = boxer_id boxer2 then 1 else 0),
                                   wins := wins row
                                     + (if c_id row = boxer_id boxer1 then 1 else 0)\<rparr>)
                     (boxers ?s)\<rparr>)"
    using fight_both_stored [where s = ?s and ?b1.0 = boxer1 and ?b2.0 = boxer2 and r = "2 / 5"
        and w = boxer1 and l = boxer2, OF _ refl] lt ids
    by simp
  also have "\<dots> = (Inr ''Rocky'',
      \<lparr>ring = [], boxers = [row_Ali\<lparr>fights := 11, wins := 9\<rparr>, row_Tyson\<lparr>fights := 16\<rparr>]\<rparr>)"
    by (simp add: boxer1_def boxer2_def row_Ali_def row_Tyson_def)
  finally have f: "fight (Inr (2 / 5)) ?s = (Inr ''Rocky'',
      \<lparr>ring = [], boxers = [row_Ali\<lparr>fights := 11, wins := 9\<rparr>, row_Tyson\<lparr>fights := 16\<rparr>]\<rparr>)" .
  have l2: "length (ring \<lparr>ring = [boxer1, boxer2], boxers = []\<rparr>) = 2" by simp
  have g: "fight (Inl (Raise RuntimeError ''Request to random.org timed out.''))
         \<lparr>ring = [boxer1, boxer2], boxers = []\<rparr> =
       (Inl (Raise RuntimeError ''Request to random.org timed out.''),
        \<lparr>ring = [boxer1, boxer2], boxers = []\<rparr>)"
    using l2 by (rule fight_random_raised)
  from fight_clears_ring_on_success [of ?s "Inr (2 / 5)"]
    fight_clears_ring_on_success [of "\<lparr>ring = [boxer1, boxer2], boxers = []\<rparr>"
      "Inl (Raise RuntimeError ''Request to random.org timed out.'')"] l f g
  show ?thesis by simp
qed

section \<open>The scenario of Ali and Tyson\<close>










section \<open>The leaderboard\<close>


















end
